theory Spec2Isabelle
  imports Main
begin

section \<open>Data model\<close>

text \<open>
  The credential record of \<^verbatim>\<open>tokens.json\<close>. Every property of a JavaScript object may be
  missing, so every field is optional: \<open>None\<close> stands for \<^verbatim>\<open>undefined\<close> (and for a JSON
  \<^verbatim>\<open>null\<close>, which the code never tells apart from it). The fields carry the types of the
  persisted layout: strings, and integers for \<^verbatim>\<open>expires_in\<close> (seconds) and
  \<^verbatim>\<open>saved_at\<close> (epoch milliseconds). JavaScript numbers are doubles: the integer arithmetic
  of this model is the code's arithmetic as long as every operand and result is a safe
  integer (of magnitude at most \<open>2^53 - 1\<close>), which \<open>exact_arithmetic\<close> below says.
\<close>

record tokens =
  access_token :: "string option"
  refresh_token :: "string option"
  token_type :: "string option"
  expires_in :: "int option"
  scope :: "string option"
  user_id :: "string option"
  saved_at :: "int option"

text \<open>
  What \<^verbatim>\<open>JSON.parse\<close> and \<^verbatim>\<open>response.json()\<close> return: \<^verbatim>\<open>null\<close>, a primitive, an object
  read through its credential properties, or any other document (an array, an object with
  none of the seven properties), kept by its text.
\<close>

datatype json = JNull | JBool bool | JNum int | JStr string | JObj tokens | JOther string

text \<open>The text of a file or of a response body, by what \<^verbatim>\<open>JSON.parse\<close> makes of it.\<close>

datatype content = Malformed | Wellformed json

datatype file_state = Missing | Unreadable | Data content

datatype auth_failure =
    NoRefreshToken
  | RefreshRejected json
  | NoTokens
  | AuthenticationFailed

datatype error =
    FitbitAuthError auth_failure
  | FitbitApiError nat json
  | SyntaxError
  | TypeError
  | FsError
  | FetchError

record response =
  status :: nat
  body :: content

datatype fetch_outcome = Rejects | Responds response

text \<open>
  A request as the client issues it: the refresh token posted to \<^verbatim>\<open>/oauth2/token\<close>, or a
  resource url with the access token put into the \<^verbatim>\<open>Authorization\<close> header and the
  caller's own headers, which are spread after the client's.
\<close>

datatype request =
    TokenRequest string
  | ResourceRequest string "string option" "(string \<times> string) list"

text \<open>
  The world the code runs in: the token file, whether the file system refuses a write or
  an unlink, the clock read by \<^verbatim>\<open>Date.now()\<close>, the outcomes of the coming \<^verbatim>\<open>fetch\<close> calls
  (each with the milliseconds it takes), and the requests issued so far.
\<close>

record world =
  token_file :: file_state
  write_fails :: bool
  unlink_fails :: bool
  clock :: int
  net :: "(nat \<times> fetch_outcome) list"
  trace :: "request list"

section \<open>JavaScript and Node primitives\<close>

fun truthy :: "json \<Rightarrow> bool" where
  "truthy JNull = False"
| "truthy (JBool b) = b"
| "truthy (JNum n) = (n \<noteq> 0)"
| "truthy (JStr s) = (s \<noteq> [])"
| "truthy (JObj t) = True"
| "truthy (JOther s) = True"

definition no_properties :: tokens where
  "no_properties = \<lparr>access_token = None, refresh_token = None, token_type = None,
     expires_in = None, scope = None, user_id = None, saved_at = None\<rparr>"

text \<open>
  Reading a credential property: of \<^verbatim>\<open>null\<close> it throws a TypeError, of a primitive or
  of a document without these properties it gives \<^verbatim>\<open>undefined\<close>.
\<close>

fun properties :: "json \<Rightarrow> error + tokens" where
  "properties JNull = Inl TypeError"
| "properties (JObj t) = Inr t"
| "properties (JBool b) = Inr no_properties"
| "properties (JNum n) = Inr no_properties"
| "properties (JStr s) = Inr no_properties"
| "properties (JOther s) = Inr no_properties"

definition JSON_parse :: "content \<Rightarrow> error + json" where
  "JSON_parse c = (case c of Malformed \<Rightarrow> Inl SyntaxError | Wellformed j \<Rightarrow> Inr j)"

definition JSON_stringify :: "json \<Rightarrow> content" where
  "JSON_stringify j = Wellformed j"

definition existsSync :: "world \<Rightarrow> bool" where
  "existsSync w = (token_file w \<noteq> Missing)"

definition readFileSync :: "world \<Rightarrow> error + content" where
  "readFileSync w = (case token_file w of Data c \<Rightarrow> Inr c | _ \<Rightarrow> Inl FsError)"

definition writeFileSync :: "content \<Rightarrow> world \<Rightarrow> (error + unit) \<times> world" where
  "writeFileSync c w =
     (if write_fails w then (Inl FsError, w) else (Inr (), w\<lparr>token_file := Data c\<rparr>))"

definition unlinkSync :: "world \<Rightarrow> (error + unit) \<times> world" where
  "unlinkSync w =
     (if unlink_fails w then (Inl FsError, w) else (Inr (), w\<lparr>token_file := Missing\<rparr>))"

definition ok :: "response \<Rightarrow> bool" where
  "ok r = (200 \<le> status r \<and> status r \<le> 299)"

definition response_json :: "response \<Rightarrow> error + json" where
  "response_json r = JSON_parse (body r)"

text \<open>
  \<^verbatim>\<open>fetch\<close> records the request, takes the next outcome and lets its time pass; it rejects
  when the outcome says so (and when nothing answers).
\<close>

definition fetch :: "request \<Rightarrow> world \<Rightarrow> (error + response) \<times> world" where
  "fetch req w =
     (case net w of
        [] \<Rightarrow> (Inl FetchError, w\<lparr>trace := trace w @ [req]\<rparr>)
      | (d, out) # rest \<Rightarrow>
          (case out of
             Rejects \<Rightarrow>
               (Inl FetchError,
                w\<lparr>clock := clock w + int d, net := rest, trace := trace w @ [req]\<rparr>)
           | Responds r \<Rightarrow>
               (Inr r,
                w\<lparr>clock := clock w + int d, net := rest, trace := trace w @ [req]\<rparr>)))"

section \<open>token-storage.js\<close>

text \<open>
  \<^verbatim>\<open>loadTokens\<close>: the body of the \<^verbatim>\<open>try\<close> is the inner expression; the \<^verbatim>\<open>catch\<close> turns
  whatever it throws into \<^verbatim>\<open>null\<close>.
\<close>

definition loadTokens :: "world \<Rightarrow> error + json" where
  "loadTokens w =
     (case (if \<not> existsSync w then Inr JNull
            else (case readFileSync w of
                    Inl e \<Rightarrow> Inl e
                  | Inr raw \<Rightarrow> JSON_parse raw)) of
        Inl e \<Rightarrow> Inr JNull
      | Inr v \<Rightarrow> Inr v)"

text \<open>
  \<^verbatim>\<open>saveTokens\<close>: builds the record from six properties of its argument and the clock,
  writes it, and rethrows what the \<^verbatim>\<open>try\<close> body throws.
\<close>

definition saveTokens :: "json \<Rightarrow> world \<Rightarrow> (error + unit) \<times> world" where
  "saveTokens toks w =
     (case (case properties toks of
              Inl e \<Rightarrow> (Inl e, w)
            | Inr t \<Rightarrow>
                writeFileSync
                  (JSON_stringify (JObj
                     \<lparr>access_token = access_token t,
                      refresh_token = refresh_token t,
                      token_type = token_type t,
                      expires_in = expires_in t,
                      scope = scope t,
                      user_id = user_id t,
                      saved_at = Some (clock w)\<rparr>)) w) of
        (Inl e, w') \<Rightarrow> (Inl e, w')
      | (Inr u, w') \<Rightarrow> (Inr (), w'))"

text \<open>
  \<^verbatim>\<open>isTokenExpired\<close>: the three negations test truthiness and short-circuit, so a
  property that is \<^verbatim>\<open>0\<close> counts like a missing one. The threshold is computed on
  integers; the code computes it on doubles, with the same result within the safe-integer
  range only.
\<close>

definition isTokenExpired :: "world \<Rightarrow> error + bool" where
  "isTokenExpired w =
     (case loadTokens w of
        Inl e \<Rightarrow> Inl e
      | Inr toks \<Rightarrow>
          if \<not> truthy toks then Inr True
          else (case properties toks of
                  Inl e \<Rightarrow> Inl e
                | Inr t \<Rightarrow>
                    (case saved_at t of
                       None \<Rightarrow> Inr True
                     | Some s \<Rightarrow>
                         if s = 0 then Inr True
                         else (case expires_in t of
                                 None \<Rightarrow> Inr True
                               | Some x \<Rightarrow>
                                   if x = 0 then Inr True
                                   else Inr (clock w \<ge> (s + x * 1000) - 5 * 60 * 1000)))))"

text \<open>
  \<^verbatim>\<open>clearTokens\<close>: unlinks the file when it exists; the \<^verbatim>\<open>catch\<close> swallows the error.
\<close>

definition clearTokens :: "world \<Rightarrow> (error + unit) \<times> world" where
  "clearTokens w =
     (case (if existsSync w then unlinkSync w else (Inr (), w)) of
        (Inl e, w') \<Rightarrow> (Inr (), w')
      | (Inr u, w') \<Rightarrow> (Inr (), w'))"

section \<open>fitbit-client.js\<close>

definition API_BASE_URL :: string where
  "API_BASE_URL = ''https://api.fitbit.com''"

text \<open>\<^verbatim>\<open>refreshAccessToken\<close>, lines 27 to 63.\<close>

definition refreshAccessToken :: "world \<Rightarrow> (error + json) \<times> world" where
  "refreshAccessToken w =
     (case loadTokens w of
        Inl e \<Rightarrow> (Inl e, w)
      | Inr toks \<Rightarrow>
          if \<not> truthy toks then (Inl (FitbitAuthError NoRefreshToken), w)
          else (case properties toks of
                  Inl e \<Rightarrow> (Inl e, w)
                | Inr t \<Rightarrow>
                    (case refresh_token t of
                       None \<Rightarrow> (Inl (FitbitAuthError NoRefreshToken), w)
                     | Some rt \<Rightarrow>
                         if rt = [] then (Inl (FitbitAuthError NoRefreshToken), w)
                         else (case fetch (TokenRequest rt) w of
                                 (Inl e, w1) \<Rightarrow> (Inl e, w1)
                               | (Inr r, w1) \<Rightarrow>
                                   if \<not> ok r then
                                     (case response_json r of
                                        Inl e \<Rightarrow> (Inl e, w1)
                                      | Inr err \<Rightarrow>
                                          if status r = 401 \<or> status r = 400
                                          then (Inl (FitbitAuthError (RefreshRejected err)), w1)
                                          else (Inl (FitbitApiError (status r) err), w1))
                                   else
                                     (case response_json r of
                                        Inl e \<Rightarrow> (Inl e, w1)
                                      | Inr newTokens \<Rightarrow>
                                          (case saveTokens newTokens w1 of
                                             (Inl e, w2) \<Rightarrow> (Inl e, w2)
                                           | (Inr u, w2) \<Rightarrow> (Inr newTokens, w2)))))))"

text \<open>\<^verbatim>\<open>getValidAccessToken\<close>, lines 68 to 81.\<close>

definition getValidAccessToken :: "world \<Rightarrow> (error + string option) \<times> world" where
  "getValidAccessToken w =
     (case loadTokens w of
        Inl e \<Rightarrow> (Inl e, w)
      | Inr toks \<Rightarrow>
          if \<not> truthy toks then (Inl (FitbitAuthError NoTokens), w)
          else (case isTokenExpired w of
                  Inl e \<Rightarrow> (Inl e, w)
                | Inr expired \<Rightarrow>
                    if expired then
                      (case refreshAccessToken w of
                         (Inl e, w1) \<Rightarrow> (Inl e, w1)
                       | (Inr newTokens, w1) \<Rightarrow>
                           (case properties newTokens of
                              Inl e \<Rightarrow> (Inl e, w1)
                            | Inr t \<Rightarrow> (Inr (access_token t), w1)))
                    else
                      (case properties toks of
                         Inl e \<Rightarrow> (Inl e, w)
                       | Inr t \<Rightarrow> (Inr (access_token t), w))))"

definition request_url :: "string \<Rightarrow> string" where
  "request_url endpoint =
     (if take 4 endpoint = ''http'' then endpoint else API_BASE_URL @ endpoint)"

definition isAuthError :: "error \<Rightarrow> bool" where
  "isAuthError e = (case e of FitbitAuthError a \<Rightarrow> True | _ \<Rightarrow> False)"

text \<open>
  The \<^verbatim>\<open>try\<close> block of \<^verbatim>\<open>apiRequest\<close>, lines 107 to 124. Its last statement returns the
  promise \<^verbatim>\<open>retryResponse.json()\<close> without awaiting it, so the block hands the response
  out and the body is parsed outside the \<^verbatim>\<open>try\<close>.
\<close>

definition apiRequest_try ::
  "string \<Rightarrow> (string \<times> string) list \<Rightarrow> world \<Rightarrow> (error + response) \<times> world" where
  "apiRequest_try url headers w =
     (case refreshAccessToken w of
        (Inl e, w1) \<Rightarrow> (Inl e, w1)
      | (Inr newTokens, w1) \<Rightarrow>
          (case properties newTokens of
             Inl e \<Rightarrow> (Inl e, w1)
           | Inr t \<Rightarrow>
               (case fetch (ResourceRequest url (access_token t) headers) w1 of
                  (Inl e, w2) \<Rightarrow> (Inl e, w2)
                | (Inr retryResponse, w2) \<Rightarrow>
                    if \<not> ok retryResponse then
                      (case response_json retryResponse of
                         Inl e \<Rightarrow> (Inl e, w2)
                       | Inr err \<Rightarrow> (Inl (FitbitApiError (status retryResponse) err), w2))
                    else (Inr retryResponse, w2))))"

text \<open>
  \<^verbatim>\<open>apiRequest\<close>, lines 89 to 139. The \<^verbatim>\<open>catch\<close> of line 125 receives every error thrown
  in the \<^verbatim>\<open>try\<close> block, rethrows a \<^verbatim>\<open>FitbitAuthError\<close> and replaces any other error.
\<close>

definition apiRequest ::
  "string \<Rightarrow> (string \<times> string) list \<Rightarrow> world \<Rightarrow> (error + json) \<times> world" where
  "apiRequest endpoint headers w =
     (case getValidAccessToken w of
        (Inl e, w1) \<Rightarrow> (Inl e, w1)
      | (Inr accessToken, w1) \<Rightarrow>
          (case fetch (ResourceRequest (request_url endpoint) accessToken headers) w1 of
             (Inl e, w2) \<Rightarrow> (Inl e, w2)
           | (Inr r, w2) \<Rightarrow>
               if status r = 401 then
                 (case apiRequest_try (request_url endpoint) headers w2 of
                    (Inl refreshError, w3) \<Rightarrow>
                      if isAuthError refreshError then (Inl refreshError, w3)
                      else (Inl (FitbitAuthError AuthenticationFailed), w3)
                  | (Inr retryResponse, w3) \<Rightarrow> (response_json retryResponse, w3))
               else if \<not> ok r then
                 (case response_json r of
                    Inl e \<Rightarrow> (Inl e, w2)
                  | Inr err \<Rightarrow> (Inl (FitbitApiError (status r) err), w2))
               else (response_json r, w2)))"

section \<open>Vocabulary of the statements\<close>

text \<open>The document on record: what a read of the token file yields.\<close>

definition stored :: "world \<Rightarrow> json" where
  "stored w = (case token_file w of Data (Wellformed j) \<Rightarrow> j | _ \<Rightarrow> JNull)"

text \<open>
  The expiry rule in the words of the specification: expired when there is no record, when
  \<^verbatim>\<open>saved_at\<close> is absent, when \<^verbatim>\<open>expires_in\<close> is absent, and when
  \<open>now \<ge> saved_at + expires_in * 1000 - 300000\<close>; not expired otherwise.
\<close>

definition isExpired_spec :: "json \<Rightarrow> int \<Rightarrow> bool" where
  "isExpired_spec j now =
     (case properties j of
        Inl e \<Rightarrow> True
      | Inr t \<Rightarrow>
          (case saved_at t of
             None \<Rightarrow> True
           | Some s \<Rightarrow>
               (case expires_in t of
                  None \<Rightarrow> True
                | Some x \<Rightarrow> now \<ge> s + x * 1000 - 300000)))"

text \<open>
  The same rule with the two additions that truthiness makes: a document that is falsy
  counts as no record, and a \<^verbatim>\<open>saved_at\<close> or \<^verbatim>\<open>expires_in\<close> of \<open>0\<close> counts as absent.
\<close>

definition isExpired_truthiness :: "json \<Rightarrow> int \<Rightarrow> bool" where
  "isExpired_truthiness j now =
     (if truthy j then
        (case properties j of
           Inl e \<Rightarrow> True
         | Inr t \<Rightarrow>
             (case saved_at t of
                None \<Rightarrow> True
              | Some s \<Rightarrow>
                  (case expires_in t of
                     None \<Rightarrow> True
                   | Some x \<Rightarrow> s = 0 \<or> x = 0 \<or> now \<ge> s + x * 1000 - 300000)))
      else True)"

text \<open>
  The range in which the doubles of the code are the integers of the model: the clock
  reading, \<^verbatim>\<open>saved_at\<close>, \<^verbatim>\<open>expires_in\<close> and every intermediate result of line 56 and
  line 59 are safe integers.
\<close>

definition safe_integer :: "int \<Rightarrow> bool" where
  "safe_integer n = (- 9007199254740991 \<le> n \<and> n \<le> 9007199254740991)"

definition exact_arithmetic :: "json \<Rightarrow> int \<Rightarrow> bool" where
  "exact_arithmetic j now =
     (safe_integer now \<and>
      (case properties j of
         Inl e \<Rightarrow> True
       | Inr t \<Rightarrow>
           (case saved_at t of
              None \<Rightarrow> True
            | Some s \<Rightarrow>
                (case expires_in t of
                   None \<Rightarrow> True
                 | Some x \<Rightarrow>
                     safe_integer s \<and> safe_integer x \<and> safe_integer (x * 1000)
                     \<and> safe_integer (s + x * 1000)
                     \<and> safe_integer (s + x * 1000 - 5 * 60 * 1000)))))"

text \<open>The refresh token on record, if there is a usable one (present and not empty).\<close>

definition refresh_token_on_record :: "world \<Rightarrow> string option" where
  "refresh_token_on_record w =
     (case properties (stored w) of
        Inl e \<Rightarrow> None
      | Inr t \<Rightarrow>
          (case refresh_token t of
             None \<Rightarrow> None
           | Some rt \<Rightarrow> if rt = [] then None else Some rt))"

text \<open>The world once a request has been answered by the next outcome of the network.\<close>

definition after_fetch ::
  "request \<Rightarrow> nat \<Rightarrow> (nat \<times> fetch_outcome) list \<Rightarrow> world \<Rightarrow> world" where
  "after_fetch req d rest w =
     w\<lparr>clock := clock w + int d, net := rest, trace := trace w @ [req]\<rparr>"

fun is_refresh :: "request \<Rightarrow> bool" where
  "is_refresh (TokenRequest rt) = True"
| "is_refresh (ResourceRequest url tok hs) = False"

definition refresh_count :: "request list \<Rightarrow> nat" where
  "refresh_count evs = length (filter is_refresh evs)"

definition resource_count :: "request list \<Rightarrow> nat" where
  "resource_count evs = length (filter (\<lambda>r. \<not> is_refresh r) evs)"

section \<open>Sample states\<close>

definition sample_record :: "string \<Rightarrow> string \<Rightarrow> int \<Rightarrow> int option \<Rightarrow> tokens" where
  "sample_record a r lifetime saved =
     \<lparr>access_token = Some a, refresh_token = Some r, token_type = Some ''Bearer'',
      expires_in = Some lifetime, scope = Some ''weight'', user_id = Some ''U1'',
      saved_at = saved\<rparr>"

definition sample_world ::
  "file_state \<Rightarrow> int \<Rightarrow> (nat \<times> fetch_outcome) list \<Rightarrow> world" where
  "sample_world f now outcomes =
     \<lparr>token_file = f, write_fails = False, unlink_fails = False, clock = now,
      net = outcomes, trace = []\<rparr>"

definition on_file :: "tokens \<Rightarrow> file_state" where
  "on_file t = Data (Wellformed (JObj t))"

definition answers :: "nat \<Rightarrow> content \<Rightarrow> nat \<times> fetch_outcome" where
  "answers code c = (0, Responds \<lparr>status = code, body = c\<rparr>)"

text \<open>A record saved when the clock read \<open>0\<close>, looked at one second later.\<close>

definition epoch_world :: world where
  "epoch_world = sample_world (on_file (sample_record ''a1'' ''r1'' 3600 (Some 0))) 1000 []"

text \<open>A record with 55 minutes of its hour left.\<close>

definition valid_world :: "(nat \<times> fetch_outcome) list \<Rightarrow> world" where
  "valid_world outcomes =
     sample_world (on_file (sample_record ''a1'' ''r1'' 3600 (Some 9700000))) 10000000 outcomes"

text \<open>
  The record of the specification's example: \<^verbatim>\<open>expires_in = 3600\<close> and
  \<^verbatim>\<open>saved_at = now - 3600 * 1000 + 60000\<close>, one minute from its real expiry.
\<close>

definition expiring_world :: "(nat \<times> fetch_outcome) list \<Rightarrow> world" where
  "expiring_world outcomes =
     sample_world (on_file (sample_record ''a1'' ''r1'' 3600 (Some 6460000))) 10000000 outcomes"

definition profile_url :: string where
  "profile_url = ''https://api.fitbit.com/1/user/-/profile.json''"

definition fresh_tokens :: "string \<Rightarrow> string \<Rightarrow> nat \<times> fetch_outcome" where
  "fresh_tokens a r = answers 200 (Wellformed (JObj (sample_record a r 28800 None)))"


text \<open>
  A valid record; the resource request is answered \<open>401\<close>, the refresh goes through, and the
  retry is answered \<open>500\<close> with a JSON error body.
\<close>

definition retry_rejected_world :: world where
  "retry_rejected_world =
     valid_world
       [answers 401 (Wellformed (JOther ''expired_token'')),
        fresh_tokens ''a2'' ''r2'',
        answers 500 (Wellformed (JOther ''server_error''))]"

text \<open>A valid record; the resource request is answered \<open>429\<close> with a body that is not JSON.\<close>

definition throttled_world :: world where
  "throttled_world = valid_world [answers 429 Malformed]"

section \<open>Auxiliary facts\<close>

lemma loadTokens_stored: "loadTokens w = Inr (stored w)"
  by (simp add: loadTokens_def stored_def existsSync_def readFileSync_def JSON_parse_def
      split: file_state.split content.split)

lemma isTokenExpired_stored:
  "isTokenExpired w = Inr (isExpired_truthiness (stored w) (clock w))"
  by (cases "stored w")
     (auto simp: isTokenExpired_def loadTokens_stored isExpired_truthiness_def
        no_properties_def split: option.split sum.split)

lemma fetch_Responds:
  "net w = (d, Responds r) # rest \<Longrightarrow> fetch req w = (Inr r, after_fetch req d rest w)"
  by (simp add: fetch_def after_fetch_def)

lemma fetch_world:
  "fetch req w = (x, w') \<Longrightarrow>
     trace w' = trace w @ [req] \<and> token_file w' = token_file w
     \<and> write_fails w' = write_fails w \<and> unlink_fails w' = unlink_fails w"
  by (auto simp: fetch_def split: list.splits fetch_outcome.splits)

lemma saveTokens_world:
  "saveTokens j w = (x, w') \<Longrightarrow> trace w' = trace w \<and> net w' = net w \<and> clock w' = clock w"
  by (auto simp: saveTokens_def writeFileSync_def split: sum.splits if_splits)

lemma truthy_properties: "truthy j \<Longrightarrow> \<exists>t. properties j = Inr t"
  by (cases j) auto

lemma saveTokens_ok_properties: "saveTokens j w = (Inr u, w') \<Longrightarrow> \<exists>t. properties j = Inr t"
  by (cases j) (auto simp: saveTokens_def)

lemma refresh_none:
  "refresh_token_on_record w = None \<Longrightarrow>
     refreshAccessToken w = (Inl (FitbitAuthError NoRefreshToken), w)"
  by (cases "stored w")
     (auto simp: refreshAccessToken_def loadTokens_stored refresh_token_on_record_def
        no_properties_def split: option.splits if_splits)

lemma refresh_some:
  "refresh_token_on_record w = Some rt \<Longrightarrow>
     refreshAccessToken w =
       (case fetch (TokenRequest rt) w of
          (Inl e, w1) \<Rightarrow> (Inl e, w1)
        | (Inr r, w1) \<Rightarrow>
            if \<not> ok r then
              (case response_json r of
                 Inl e \<Rightarrow> (Inl e, w1)
               | Inr err \<Rightarrow>
                   if status r = 401 \<or> status r = 400
                   then (Inl (FitbitAuthError (RefreshRejected err)), w1)
                   else (Inl (FitbitApiError (status r) err), w1))
            else
              (case response_json r of
                 Inl e \<Rightarrow> (Inl e, w1)
               | Inr newTokens \<Rightarrow>
                   (case saveTokens newTokens w1 of
                      (Inl e, w2) \<Rightarrow> (Inl e, w2)
                    | (Inr u, w2) \<Rightarrow> (Inr newTokens, w2))))"
  by (cases "stored w")
     (auto simp: refreshAccessToken_def loadTokens_stored refresh_token_on_record_def
        no_properties_def split: option.splits if_splits)

lemma refresh_some_trace:
  assumes "refresh_token_on_record w = Some rt" and "refreshAccessToken w = (x, w')"
  shows "trace w' = trace w @ [TokenRequest rt]"
proof -
  obtain y w1 where f: "fetch (TokenRequest rt) w = (y, w1)"
    by (cases "fetch (TokenRequest rt) w")
  from fetch_world [OF f] have t1: "trace w1 = trace w @ [TokenRequest rt]" by simp
  have "trace w' = trace w1"
    using assms(2) f unfolding refresh_some [OF assms(1)]
    by (auto split: sum.splits if_splits prod.splits dest: saveTokens_world)
  with t1 show ?thesis by simp
qed

lemma refresh_trace:
  assumes "refreshAccessToken w = (x, w')"
  shows "trace w' = trace w \<or> (\<exists>rt. trace w' = trace w @ [TokenRequest rt])"
proof (cases "refresh_token_on_record w")
  case None
  with assms show ?thesis by (simp add: refresh_none)
next
  case (Some rt)
  from refresh_some_trace [OF Some assms] show ?thesis by blast
qed

lemma refresh_non2xx:
  assumes "refresh_token_on_record w = Some rt" and "net w = (d, Responds r) # rest"
    and "\<not> ok r" and "body r = Wellformed err"
  shows "refreshAccessToken w =
       (Inl (if status r = 400 \<or> status r = 401 then FitbitAuthError (RefreshRejected err)
             else FitbitApiError (status r) err),
        after_fetch (TokenRequest rt) d rest w)"
  using assms by (auto simp: refresh_some fetch_Responds response_json_def JSON_parse_def)

lemma refresh_non2xx_file:
  assumes "net w = (d, Responds r) # rest" and "\<not> ok r"
  shows "(\<exists>e. fst (refreshAccessToken w) = Inl e)
       \<and> token_file (snd (refreshAccessToken w)) = token_file w"
proof (cases "refresh_token_on_record w")
  case None
  then show ?thesis by (simp add: refresh_none)
next
  case (Some rt)
  with assms show ?thesis
    by (auto simp: refresh_some fetch_Responds after_fetch_def split: sum.splits)
qed

lemma refresh_file_changed:
  assumes "token_file (snd (refreshAccessToken w)) \<noteq> token_file w"
  shows "\<exists>d r rest. net w = (d, Responds r) # rest \<and> ok r"
proof (cases "refresh_token_on_record w")
  case None
  with assms show ?thesis by (simp add: refresh_none)
next
  case (Some rt)
  with assms show ?thesis
    by (auto simp: refresh_some fetch_def
        split: sum.splits list.splits fetch_outcome.splits if_splits)
qed

lemma refresh_ok:
  assumes "refreshAccessToken w = (Inr nt, w')"
  shows "\<exists>t rt. properties nt = Inr t \<and> trace w' = trace w @ [TokenRequest rt]"
proof (cases "refresh_token_on_record w")
  case None
  with assms show ?thesis by (simp add: refresh_none)
next
  case (Some rt)
  have "\<exists>t. properties nt = Inr t"
    using assms Some
    by (auto simp: refresh_some split: prod.splits sum.splits if_splits
        dest: saveTokens_ok_properties)
  with refresh_some_trace [OF Some assms] show ?thesis by blast
qed


lemma getValidAccessToken_absent:
  "\<not> truthy (stored w) \<Longrightarrow> getValidAccessToken w = (Inl (FitbitAuthError NoTokens), w)"
  by (simp add: getValidAccessToken_def loadTokens_stored)

lemma getValidAccessToken_expired:
  "truthy (stored w) \<Longrightarrow> isTokenExpired w = Inr True \<Longrightarrow>
   getValidAccessToken w =
     (case refreshAccessToken w of
        (Inl e, w1) \<Rightarrow> (Inl e, w1)
      | (Inr newTokens, w1) \<Rightarrow>
          (case properties newTokens of
             Inl e \<Rightarrow> (Inl e, w1)
           | Inr t \<Rightarrow> (Inr (access_token t), w1)))"
  by (simp add: getValidAccessToken_def loadTokens_stored)

lemma getValidAccessToken_valid:
  "truthy (stored w) \<Longrightarrow> isTokenExpired w = Inr False \<Longrightarrow> properties (stored w) = Inr t \<Longrightarrow>
   getValidAccessToken w = (Inr (access_token t), w)"
  by (simp add: getValidAccessToken_def loadTokens_stored)



lemma apiRequest_try_trace:
  assumes "apiRequest_try url hs w = (x, w')"
  shows "\<exists>evs. trace w' = trace w @ evs \<and> refresh_count evs \<le> 1 \<and> resource_count evs \<le> 1"
proof -
  obtain y w1 where r: "refreshAccessToken w = (y, w1)" by (cases "refreshAccessToken w")
  from refresh_trace [OF r] obtain e1 where e1: "trace w1 = trace w @ e1"
    "refresh_count e1 \<le> 1" "resource_count e1 = 0"
    by (auto simp: refresh_count_def resource_count_def)
  show ?thesis
  proof (cases y)
    case (Inl e)
    with assms r have "w' = w1" by (simp add: apiRequest_try_def)
    with e1 show ?thesis by auto
  next
    case (Inr nt)
    then obtain t where t: "properties nt = Inr t" using refresh_ok r by blast
    let ?retry = "ResourceRequest url (access_token t) hs"
    obtain z w2 where f: "fetch ?retry w1 = (z, w2)" by (cases "fetch ?retry w1")
    have "w' = w2"
      using assms r Inr t f by (auto simp: apiRequest_try_def split: sum.splits if_splits)
    moreover from fetch_world [OF f] have "trace w2 = trace w @ (e1 @ [?retry])"
      using e1 by simp
    moreover have "refresh_count (e1 @ [?retry]) \<le> 1" "resource_count (e1 @ [?retry]) \<le> 1"
      using e1 by (simp_all add: refresh_count_def resource_count_def)
    ultimately show ?thesis by blast
  qed
qed

lemma apiRequest_token_fails:
  "getValidAccessToken w = (Inl e, w1) \<Longrightarrow> apiRequest ep hs w = (Inl e, w1)"
  by (simp add: apiRequest_def)

lemma apiRequest_after_token:
  assumes g: "getValidAccessToken w = (Inr tok, w1)"
  shows "\<exists>evs. trace (snd (apiRequest ep hs w))
            = trace w1 @ ResourceRequest (request_url ep) tok hs # evs
          \<and> refresh_count evs \<le> 1 \<and> resource_count evs \<le> 1"
proof -
  let ?req = "ResourceRequest (request_url ep) tok hs"
  obtain z w2 where f: "fetch ?req w1 = (z, w2)" by (cases "fetch ?req w1")
  from fetch_world [OF f] have t2: "trace w2 = trace w1 @ [?req]" by simp
  show ?thesis
  proof (cases z)
    case (Inl e)
    with g f have "snd (apiRequest ep hs w) = w2" by (simp add: apiRequest_def)
    with t2 show ?thesis by (simp add: refresh_count_def resource_count_def)
  next
    case (Inr r)
    show ?thesis
    proof (cases "status r = 401")
      case False
      with g f Inr have "snd (apiRequest ep hs w) = w2"
        by (simp add: apiRequest_def split: sum.splits)
      with t2 show ?thesis by (simp add: refresh_count_def resource_count_def)
    next
      case True
      obtain y w3 where tr: "apiRequest_try (request_url ep) hs w2 = (y, w3)"
        by (cases "apiRequest_try (request_url ep) hs w2")
      with g f Inr True have "snd (apiRequest ep hs w) = w3"
        by (simp add: apiRequest_def split: sum.splits)
      moreover from apiRequest_try_trace [OF tr] obtain evs where
        "trace w3 = trace w2 @ evs" "refresh_count evs \<le> 1" "resource_count evs \<le> 1"
        by blast
      ultimately show ?thesis using t2 by simp
    qed
  qed
qed


lemma apiRequest_non401:
  assumes "getValidAccessToken w = (Inr tok, w1)" and "net w1 = (d, Responds r) # rest"
    and "\<not> ok r" and "status r \<noteq> 401" and "body r = Wellformed err"
  shows "apiRequest ep hs w =
     (Inl (FitbitApiError (status r) err),
      after_fetch (ResourceRequest (request_url ep) tok hs) d rest w1)"
  using assms by (simp add: apiRequest_def fetch_Responds response_json_def JSON_parse_def)

text \<open>
  What the \<open>401\<close> path does once the refresh has gone through and the retry is answered: a
  2xx retry gives its parsed body (or its parse failure); any other retry ends as the auth
  failure of line 129, because the \<^verbatim>\<open>FitbitApiError\<close> of line 121 is thrown inside the
  \<^verbatim>\<open>try\<close> and the \<^verbatim>\<open>catch\<close> replaces it.
\<close>

lemma apiRequest_retry_outcome:
  assumes "getValidAccessToken w = (Inr tok, w1)" and "net w1 = (d, Responds r) # rest"
    and "status r = 401"
    and "refreshAccessToken (after_fetch (ResourceRequest (request_url ep) tok hs) d rest w1)
           = (Inr nt, w3)"
    and "properties nt = Inr t"
    and "net w3 = (d', Responds r') # rest'"
  shows "apiRequest ep hs w =
     (if ok r' then response_json r' else Inl (FitbitAuthError AuthenticationFailed),
      after_fetch (ResourceRequest (request_url ep) (access_token t) hs) d' rest' w3)"
  using assms
  by (auto simp: apiRequest_def apiRequest_try_def fetch_Responds isAuthError_def
      response_json_def JSON_parse_def split: sum.splits content.splits)

lemmas run_defs = apiRequest_def apiRequest_try_def getValidAccessToken_def
  refreshAccessToken_def isTokenExpired_def loadTokens_stored stored_def saveTokens_def
  writeFileSync_def JSON_stringify_def fetch_def response_json_def JSON_parse_def ok_def
  isAuthError_def request_url_def API_BASE_URL_def

lemmas sample_defs = sample_record_def sample_world_def on_file_def answers_def
  valid_world_def expiring_world_def fresh_tokens_def profile_url_def

section \<open>Reading the token file\<close>

text \<open>
  C7. \<^verbatim>\<open>loadTokens\<close> never raises, whatever the state of the token file: it returns the
  parsed document when the file exists, can be read and holds valid JSON, and \<^verbatim>\<open>null\<close>
  when the file is missing, unreadable or malformed.
\<close>

theorem loadTokens_never_raises:
  "loadTokens w =
     Inr (case token_file w of
            Missing \<Rightarrow> JNull
          | Unreadable \<Rightarrow> JNull
          | Data Malformed \<Rightarrow> JNull
          | Data (Wellformed j) \<Rightarrow> j)"
  by (simp add: loadTokens_def existsSync_def readFileSync_def JSON_parse_def
      split: file_state.split content.split)

theorem loadTokens_never_raises_witness:
  "loadTokens (sample_world Missing 0 []) = Inr JNull
   \<and> loadTokens (sample_world Unreadable 0 []) = Inr JNull
   \<and> loadTokens (sample_world (Data Malformed) 0 []) = Inr JNull
   \<and> loadTokens (sample_world (Data (Wellformed (JNum 7))) 0 []) = Inr (JNum 7)"
  using loadTokens_never_raises [of "sample_world Missing 0 []"]
    loadTokens_never_raises [of "sample_world Unreadable 0 []"]
    loadTokens_never_raises [of "sample_world (Data Malformed) 0 []"]
    loadTokens_never_raises [of "sample_world (Data (Wellformed (JNum 7))) 0 []"]
  by (simp add: sample_world_def)

section \<open>Clearing the token file\<close>

text \<open>
  C10. \<^verbatim>\<open>clearTokens\<close> never raises, whatever the state of the token file. Without a
  file it changes nothing. When the file exists and the unlink fails, the error is
  swallowed and the file stays as it was; when the unlink succeeds the file is gone.
\<close>

theorem clearTokens_never_raises:
  "fst (clearTokens w) = Inr ()
   \<and> (token_file w = Missing \<longrightarrow> snd (clearTokens w) = w)
   \<and> (token_file w \<noteq> Missing \<and> unlink_fails w \<longrightarrow> snd (clearTokens w) = w)
   \<and> (token_file w \<noteq> Missing \<and> \<not> unlink_fails w \<longrightarrow>
        snd (clearTokens w) = w\<lparr>token_file := Missing\<rparr>)"
  by (simp add: clearTokens_def existsSync_def unlinkSync_def)

theorem clearTokens_never_raises_witness:
  "token_file (sample_world Missing 0 []) = Missing
   \<and> clearTokens (sample_world Missing 0 []) = (Inr (), sample_world Missing 0 [])
   \<and> token_file (valid_world [] \<lparr>unlink_fails := True\<rparr>) \<noteq> Missing
   \<and> unlink_fails (valid_world [] \<lparr>unlink_fails := True\<rparr>)
   \<and> clearTokens (valid_world [] \<lparr>unlink_fails := True\<rparr>)
       = (Inr (), valid_world [] \<lparr>unlink_fails := True\<rparr>)
   \<and> token_file (valid_world []) \<noteq> Missing
   \<and> \<not> unlink_fails (valid_world [])
   \<and> clearTokens (valid_world []) = (Inr (), sample_world Missing 10000000 [])"
  using clearTokens_never_raises [of "sample_world Missing 0 []"]
    clearTokens_never_raises [of "valid_world [] \<lparr>unlink_fails := True\<rparr>"]
    clearTokens_never_raises [of "valid_world []"]
  by (simp add: sample_world_def valid_world_def on_file_def prod_eq_iff)

section \<open>Saving and reading back\<close>



section \<open>The expiry predicate\<close>

text \<open>
  C1, as the specification words it, fails: a record whose \<^verbatim>\<open>saved_at\<close> is present and
  \<open>0\<close>, with a lifetime of an hour, read one second later, is reported expired although
  \<open>1000 < 0 + 3600 * 1000 - 300000\<close>.
\<close>

theorem isTokenExpired_spec_counterexample:
  "loadTokens epoch_world = Inr (JObj (sample_record ''a1'' ''r1'' 3600 (Some 0)))
   \<and> clock epoch_world = 1000
   \<and> isTokenExpired epoch_world = Inr True
   \<and> isExpired_spec (JObj (sample_record ''a1'' ''r1'' 3600 (Some 0))) 1000 = False"
  by (simp add: epoch_world_def sample_world_def on_file_def sample_record_def
      isTokenExpired_def loadTokens_stored stored_def isExpired_spec_def)

text \<open>
  C1, amended. Within the safe-integer range (the clock reading, \<^verbatim>\<open>saved_at\<close>,
  \<^verbatim>\<open>expires_in\<close>, \<open>expires_in * 1000\<close>, \<open>saved_at + expires_in * 1000\<close> and that sum less
  \<open>300000\<close> are all integers of magnitude at most \<open>2^53 - 1\<close>), \<^verbatim>\<open>isTokenExpired\<close> never
  raises and returns true exactly when the document on record is falsy (no record), or
  \<^verbatim>\<open>saved_at\<close> is absent or \<open>0\<close>, or \<^verbatim>\<open>expires_in\<close> is absent or \<open>0\<close>, or
  \<open>now \<ge> saved_at + expires_in * 1000 - 300000\<close>; it returns false in every other case.
\<close>

theorem isTokenExpired_truthiness_rule:
  "exact_arithmetic (stored w) (clock w) \<Longrightarrow>
   isTokenExpired w = Inr (isExpired_truthiness (stored w) (clock w))"
  by (rule isTokenExpired_stored)

theorem isTokenExpired_truthiness_rule_witness:
  "exact_arithmetic (stored (valid_world [])) (clock (valid_world []))
   \<and> isTokenExpired (valid_world []) = Inr False
   \<and> exact_arithmetic (stored (expiring_world [])) (clock (expiring_world []))
   \<and> isTokenExpired (expiring_world []) = Inr True
   \<and> exact_arithmetic (stored epoch_world) (clock epoch_world)
   \<and> isTokenExpired epoch_world = Inr True
   \<and> exact_arithmetic (stored (sample_world Missing 10000000 []))
       (clock (sample_world Missing 10000000 []))
   \<and> isTokenExpired (sample_world Missing 10000000 []) = Inr True"
  using isTokenExpired_truthiness_rule [of "valid_world []"]
    isTokenExpired_truthiness_rule [of "expiring_world []"]
    isTokenExpired_truthiness_rule [of epoch_world]
    isTokenExpired_truthiness_rule [of "sample_world Missing 10000000 []"]
  by (simp add: valid_world_def expiring_world_def epoch_world_def sample_world_def
      on_file_def sample_record_def stored_def isExpired_truthiness_def exact_arithmetic_def
      safe_integer_def)

section \<open>The refresh operation\<close>

text \<open>
  C4, as the specification words it, fails: a \<open>401\<close> from the token endpoint whose body is
  not JSON makes \<^verbatim>\<open>response.json()\<close> of line 49 throw before the status is looked at, and
  the refresh raises that parse failure, not an auth failure.
\<close>

theorem refreshAccessToken_spec_counterexample:
  "refresh_token_on_record (valid_world [answers 401 Malformed]) = Some ''r1''
   \<and> refreshAccessToken (valid_world [answers 401 Malformed]) =
       (Inl SyntaxError, after_fetch (TokenRequest ''r1'') 0 [] (valid_world [answers 401 Malformed]))
   \<and> \<not> isAuthError SyntaxError"
  by (simp add: valid_world_def sample_world_def on_file_def sample_record_def answers_def
      refresh_token_on_record_def stored_def refresh_some fetch_Responds ok_def
      response_json_def JSON_parse_def isAuthError_def)

text \<open>
  C4, amended. Without a usable refresh token on record the refresh raises an auth error
  and leaves the world as it is: the token endpoint is not contacted. When the endpoint
  answers non-2xx with a body that parses as JSON, status \<open>400\<close> or \<open>401\<close> raises an auth
  failure and any other status raises an API failure with that status and the parsed body,
  after the one request. In every case the refresh sends at most one request to the token
  endpoint: it never retries.
\<close>

theorem refreshAccessToken_failures:
  "(refresh_token_on_record w = None \<longrightarrow>
      refreshAccessToken w = (Inl (FitbitAuthError NoRefreshToken), w))
   \<and> (refresh_token_on_record w = Some rt \<and> net w = (d, Responds r) # rest \<and> \<not> ok r
        \<and> body r = Wellformed err \<longrightarrow>
      refreshAccessToken w =
        (Inl (if status r = 400 \<or> status r = 401 then FitbitAuthError (RefreshRejected err)
              else FitbitApiError (status r) err),
         after_fetch (TokenRequest rt) d rest w))
   \<and> (trace (snd (refreshAccessToken w)) = trace w
        \<or> (\<exists>rt'. trace (snd (refreshAccessToken w)) = trace w @ [TokenRequest rt']))"
  using refresh_none [of w] refresh_non2xx [of w rt d r rest err]
    refresh_trace [of w "fst (refreshAccessToken w)" "snd (refreshAccessToken w)"]
  by simp

theorem refreshAccessToken_failures_witness:
  "refresh_token_on_record (sample_world Missing 0 [answers 200 Malformed]) = None
   \<and> refreshAccessToken (sample_world Missing 0 [answers 200 Malformed]) =
       (Inl (FitbitAuthError NoRefreshToken), sample_world Missing 0 [answers 200 Malformed])
   \<and> refresh_token_on_record (valid_world [answers 401 (Wellformed (JOther ''invalid_grant''))])
       = Some ''r1''
   \<and> \<not> ok \<lparr>status = 401, body = Wellformed (JOther ''invalid_grant'')\<rparr>
   \<and> refreshAccessToken (valid_world [answers 401 (Wellformed (JOther ''invalid_grant''))]) =
       (Inl (FitbitAuthError (RefreshRejected (JOther ''invalid_grant''))),
        after_fetch (TokenRequest ''r1'') 0 []
          (valid_world [answers 401 (Wellformed (JOther ''invalid_grant''))]))
   \<and> refresh_token_on_record (valid_world [answers 503 (Wellformed (JOther ''unavailable''))])
       = Some ''r1''
   \<and> \<not> ok \<lparr>status = 503, body = Wellformed (JOther ''unavailable'')\<rparr>
   \<and> refreshAccessToken (valid_world [answers 503 (Wellformed (JOther ''unavailable''))]) =
       (Inl (FitbitApiError 503 (JOther ''unavailable'')),
        after_fetch (TokenRequest ''r1'') 0 []
          (valid_world [answers 503 (Wellformed (JOther ''unavailable''))]))"
  using refreshAccessToken_failures
      [of "sample_world Missing 0 [answers 200 Malformed]" "''r1''" 0
          "\<lparr>status = 200, body = Malformed\<rparr>" "[]" JNull]
    refreshAccessToken_failures
      [of "valid_world [answers 401 (Wellformed (JOther ''invalid_grant''))]" "''r1''" 0
          "\<lparr>status = 401, body = Wellformed (JOther ''invalid_grant'')\<rparr>" "[]"
          "JOther ''invalid_grant''"]
    refreshAccessToken_failures
      [of "valid_world [answers 503 (Wellformed (JOther ''unavailable''))]" "''r1''" 0
          "\<lparr>status = 503, body = Wellformed (JOther ''unavailable'')\<rparr>" "[]"
          "JOther ''unavailable''"]
  by (simp add: valid_world_def sample_world_def on_file_def sample_record_def answers_def
      refresh_token_on_record_def stored_def ok_def)

text \<open>
  C9. A refresh that fails for want of a refresh token fails without touching the world,
  and a refresh whose token request is answered non-2xx fails and leaves the token file as
  it was. The token file changes during a refresh only when the token endpoint answered
  2xx: \<^verbatim>\<open>saveTokens\<close> is reached on no other path.
\<close>

theorem refreshAccessToken_failure_keeps_record:
  "(refresh_token_on_record w = None \<longrightarrow>
      (\<exists>e. fst (refreshAccessToken w) = Inl e) \<and> snd (refreshAccessToken w) = w)
   \<and> (net w = (d, Responds r) # rest \<and> \<not> ok r \<longrightarrow>
      (\<exists>e. fst (refreshAccessToken w) = Inl e)
        \<and> token_file (snd (refreshAccessToken w)) = token_file w)
   \<and> (token_file (snd (refreshAccessToken w)) \<noteq> token_file w \<longrightarrow>
      (\<exists>d' r' rest'. net w = (d', Responds r') # rest' \<and> ok r'))"
  using refresh_non2xx_file [of w d r rest] refresh_file_changed [of w]
  by (simp add: refresh_none)

theorem refreshAccessToken_failure_keeps_record_witness:
  "refresh_token_on_record (sample_world (Data Malformed) 0 []) = None
   \<and> refreshAccessToken (sample_world (Data Malformed) 0 []) =
       (Inl (FitbitAuthError NoRefreshToken), sample_world (Data Malformed) 0 [])
   \<and> net (valid_world [answers 400 (Wellformed (JOther ''invalid_grant''))]) =
       [(0, Responds \<lparr>status = 400, body = Wellformed (JOther ''invalid_grant'')\<rparr>)]
   \<and> \<not> ok \<lparr>status = 400, body = Wellformed (JOther ''invalid_grant'')\<rparr>
   \<and> (\<exists>e. fst (refreshAccessToken
                 (valid_world [answers 400 (Wellformed (JOther ''invalid_grant''))])) = Inl e)
   \<and> token_file (snd (refreshAccessToken
                 (valid_world [answers 400 (Wellformed (JOther ''invalid_grant''))]))) =
       on_file (sample_record ''a1'' ''r1'' 3600 (Some 9700000))
   \<and> token_file (snd (refreshAccessToken
        (valid_world [answers 200 (Wellformed (JObj (sample_record ''a2'' ''r2'' 28800 None)))])))
       \<noteq> token_file
            (valid_world [answers 200 (Wellformed (JObj (sample_record ''a2'' ''r2'' 28800 None)))])
   \<and> ok \<lparr>status = 200, body = Wellformed (JObj (sample_record ''a2'' ''r2'' 28800 None))\<rparr>"
  using refreshAccessToken_failure_keeps_record
      [of "sample_world (Data Malformed) 0 []" 0 "\<lparr>status = 200, body = Malformed\<rparr>" "[]"]
    refreshAccessToken_failure_keeps_record
      [of "valid_world [answers 400 (Wellformed (JOther ''invalid_grant''))]" 0
          "\<lparr>status = 400, body = Wellformed (JOther ''invalid_grant'')\<rparr>" "[]"]
    refreshAccessToken_failure_keeps_record
      [of "valid_world [answers 200 (Wellformed (JObj (sample_record ''a2'' ''r2'' 28800 None)))]"
          0 "\<lparr>status = 200, body = Malformed\<rparr>" "[]"]
  by (simp add: valid_world_def sample_world_def on_file_def sample_record_def answers_def
      refresh_token_on_record_def stored_def ok_def refresh_none refresh_some fetch_Responds
      after_fetch_def response_json_def JSON_parse_def saveTokens_def writeFileSync_def
      JSON_stringify_def)

section \<open>One call of the client\<close>

text \<open>
  C5. The resolve-token step of \<^verbatim>\<open>apiRequest\<close>. Without a record the call fails with the
  auth error \<open>NoTokens\<close> and the world is untouched: no request is issued. With a record
  that is expired, the refresh operation runs once from the state of the call: when it
  fails the call fails with the same error in the world the refresh left, with no resource
  request; when it succeeds, its one token request is followed by the resource request,
  which carries the access token of the refreshed tokens. With a record that is not
  expired, the first request of the call is the resource request, carrying the stored
  access token.
\<close>

theorem apiRequest_resolve_token:
  "(\<not> truthy (stored w) \<longrightarrow> apiRequest ep hs w = (Inl (FitbitAuthError NoTokens), w))
   \<and> (truthy (stored w) \<and> isTokenExpired w = Inr True
        \<and> refreshAccessToken w = (Inl e, w1) \<longrightarrow>
      apiRequest ep hs w = (Inl e, w1)
        \<and> (trace w1 = trace w \<or> (\<exists>rt. trace w1 = trace w @ [TokenRequest rt])))
   \<and> (truthy (stored w) \<and> isTokenExpired w = Inr True
        \<and> refreshAccessToken w = (Inr nt, w1) \<longrightarrow>
      (\<exists>t rt evs. properties nt = Inr t
         \<and> trace (snd (apiRequest ep hs w)) =
             trace w @ TokenRequest rt
               # ResourceRequest (request_url ep) (access_token t) hs # evs))
   \<and> (truthy (stored w) \<and> isTokenExpired w = Inr False \<longrightarrow>
      (\<exists>t evs. properties (stored w) = Inr t
         \<and> trace (snd (apiRequest ep hs w)) =
             trace w @ ResourceRequest (request_url ep) (access_token t) hs # evs))"
proof (intro conjI impI)
  assume "\<not> truthy (stored w)"
  then show "apiRequest ep hs w = (Inl (FitbitAuthError NoTokens), w)"
    by (simp add: getValidAccessToken_absent apiRequest_token_fails)
next
  assume a: "truthy (stored w) \<and> isTokenExpired w = Inr True
    \<and> refreshAccessToken w = (Inl e, w1)"
  then have "getValidAccessToken w = (Inl e, w1)"
    by (simp add: getValidAccessToken_expired)
  then show "apiRequest ep hs w = (Inl e, w1)"
    by (rule apiRequest_token_fails)
  from a refresh_trace [of w "Inl e" w1]
  show "trace w1 = trace w \<or> (\<exists>rt. trace w1 = trace w @ [TokenRequest rt])"
    by simp
next
  assume a: "truthy (stored w) \<and> isTokenExpired w = Inr True
    \<and> refreshAccessToken w = (Inr nt, w1)"
  then obtain t rt where t: "properties nt = Inr t"
    and tr: "trace w1 = trace w @ [TokenRequest rt]"
    using refresh_ok [of w nt w1] by blast
  from a t have "getValidAccessToken w = (Inr (access_token t), w1)"
    by (simp add: getValidAccessToken_expired)
  from apiRequest_after_token [OF this, of ep hs] tr t
  show "\<exists>t rt evs. properties nt = Inr t
         \<and> trace (snd (apiRequest ep hs w)) =
             trace w @ TokenRequest rt
               # ResourceRequest (request_url ep) (access_token t) hs # evs"
    by auto
next
  assume a: "truthy (stored w) \<and> isTokenExpired w = Inr False"
  then obtain t where t: "properties (stored w) = Inr t"
    using truthy_properties by blast
  with a have "getValidAccessToken w = (Inr (access_token t), w)"
    by (simp add: getValidAccessToken_valid)
  from apiRequest_after_token [OF this, of ep hs] t
  show "\<exists>t evs. properties (stored w) = Inr t
         \<and> trace (snd (apiRequest ep hs w)) =
             trace w @ ResourceRequest (request_url ep) (access_token t) hs # evs"
    by auto
qed

theorem apiRequest_resolve_token_witness:
  "\<not> truthy (stored (sample_world Missing 10000000 [answers 200 Malformed]))
   \<and> apiRequest ''/1/user/-/profile.json'' [] (sample_world Missing 10000000 [answers 200 Malformed])
       = (Inl (FitbitAuthError NoTokens), sample_world Missing 10000000 [answers 200 Malformed])
   \<and> truthy (stored (expiring_world [answers 400 (Wellformed (JOther ''invalid_grant''))]))
   \<and> isTokenExpired (expiring_world [answers 400 (Wellformed (JOther ''invalid_grant''))])
       = Inr True
   \<and> refreshAccessToken (expiring_world [answers 400 (Wellformed (JOther ''invalid_grant''))])
       = (Inl (FitbitAuthError (RefreshRejected (JOther ''invalid_grant''))),
          after_fetch (TokenRequest ''r1'') 0 []
            (expiring_world [answers 400 (Wellformed (JOther ''invalid_grant''))]))
   \<and> apiRequest ''/1/user/-/profile.json'' []
         (expiring_world [answers 400 (Wellformed (JOther ''invalid_grant''))])
       = (Inl (FitbitAuthError (RefreshRejected (JOther ''invalid_grant''))),
          after_fetch (TokenRequest ''r1'') 0 []
            (expiring_world [answers 400 (Wellformed (JOther ''invalid_grant''))]))
   \<and> truthy (stored (expiring_world
         [fresh_tokens ''a2'' ''r2'', answers 200 (Wellformed (JOther ''profile''))]))
   \<and> isTokenExpired (expiring_world
         [fresh_tokens ''a2'' ''r2'', answers 200 (Wellformed (JOther ''profile''))]) = Inr True
   \<and> refreshAccessToken (expiring_world
         [fresh_tokens ''a2'' ''r2'', answers 200 (Wellformed (JOther ''profile''))])
       = (Inr (JObj (sample_record ''a2'' ''r2'' 28800 None)),
          (after_fetch (TokenRequest ''r1'') 0 [answers 200 (Wellformed (JOther ''profile''))]
             (expiring_world
                [fresh_tokens ''a2'' ''r2'', answers 200 (Wellformed (JOther ''profile''))]))
          \<lparr>token_file := on_file (sample_record ''a2'' ''r2'' 28800 (Some 10000000))\<rparr>)
   \<and> trace (snd (apiRequest ''/1/user/-/profile.json'' []
         (expiring_world
            [fresh_tokens ''a2'' ''r2'', answers 200 (Wellformed (JOther ''profile''))])))
       = [TokenRequest ''r1'', ResourceRequest profile_url (Some ''a2'') []]
   \<and> truthy (stored (valid_world [answers 200 (Wellformed (JOther ''profile''))]))
   \<and> isTokenExpired (valid_world [answers 200 (Wellformed (JOther ''profile''))]) = Inr False
   \<and> trace (snd (apiRequest ''/1/user/-/profile.json'' []
         (valid_world [answers 200 (Wellformed (JOther ''profile''))])))
       = [ResourceRequest profile_url (Some ''a1'') []]"
  using apiRequest_resolve_token
      [of "sample_world Missing 10000000 [answers 200 Malformed]"
          "''/1/user/-/profile.json''" "[]" FetchError
          "sample_world Missing 10000000 [answers 200 Malformed]" JNull]
    apiRequest_resolve_token
      [of "expiring_world [answers 400 (Wellformed (JOther ''invalid_grant''))]"
          "''/1/user/-/profile.json''" "[]"
          "FitbitAuthError (RefreshRejected (JOther ''invalid_grant''))"
          "after_fetch (TokenRequest ''r1'') 0 []
            (expiring_world [answers 400 (Wellformed (JOther ''invalid_grant''))])" JNull]
    apiRequest_resolve_token
      [of "expiring_world
             [fresh_tokens ''a2'' ''r2'', answers 200 (Wellformed (JOther ''profile''))]"
          "''/1/user/-/profile.json''" "[]" FetchError
          "(after_fetch (TokenRequest ''r1'') 0 [answers 200 (Wellformed (JOther ''profile''))]
             (expiring_world
                [fresh_tokens ''a2'' ''r2'', answers 200 (Wellformed (JOther ''profile''))]))
           \<lparr>token_file := on_file (sample_record ''a2'' ''r2'' 28800 (Some 10000000))\<rparr>"
          "JObj (sample_record ''a2'' ''r2'' 28800 None)"]
    apiRequest_resolve_token
      [of "valid_world [answers 200 (Wellformed (JOther ''profile''))]"
          "''/1/user/-/profile.json''" "[]" FetchError
          "valid_world [answers 200 (Wellformed (JOther ''profile''))]" JNull]
  by (simp add: run_defs sample_defs after_fetch_def)

text \<open>
  C2, at a failing input. The stored record is valid; the resource request is answered
  \<open>401\<close>, the refresh goes through, and the retry, sent with the new access token, is
  answered \<open>500\<close> with a JSON error body. One refresh and one retry have taken place, but the
  call raises the auth failure of line 129 and not an API failure with the retry's status
  and body.
\<close>

theorem apiRequest_retry_rejected_raises_auth_failure:
  "fst (apiRequest ''/1/user/-/profile.json'' [] retry_rejected_world)
     = Inl (FitbitAuthError AuthenticationFailed)
   \<and> fst (apiRequest ''/1/user/-/profile.json'' [] retry_rejected_world)
     \<noteq> Inl (FitbitApiError 500 (JOther ''server_error''))
   \<and> trace (snd (apiRequest ''/1/user/-/profile.json'' [] retry_rejected_world))
     = [ResourceRequest profile_url (Some ''a1'') [], TokenRequest ''r1'',
        ResourceRequest profile_url (Some ''a2'') []]"
  by (simp add: retry_rejected_world_def run_defs sample_defs)




text \<open>
  C8, as the specification words it, fails: a \<open>429\<close> whose body is not JSON makes
  \<^verbatim>\<open>response.json()\<close> of line 134 throw, and the call raises that parse failure, not an API
  failure with the status.
\<close>

theorem apiRequest_non401_counterexample:
  "net throttled_world = [(0, Responds \<lparr>status = 429, body = Malformed\<rparr>)]
   \<and> isTokenExpired throttled_world = Inr False
   \<and> fst (apiRequest ''/1/user/-/profile.json'' [] throttled_world) = Inl SyntaxError
   \<and> trace (snd (apiRequest ''/1/user/-/profile.json'' [] throttled_world))
     = [ResourceRequest profile_url (Some ''a1'') []]"
  by (simp add: throttled_world_def run_defs sample_defs)

text \<open>
  C8, amended. When the resource request of a call is answered non-2xx with a status
  other than \<open>401\<close> and a body that parses as JSON, the call raises an API failure with that
  status and the parsed body, and the world it leaves is the one in which the answer
  arrived: the answer is followed by no refresh, no retry and no write to the token file.
\<close>

theorem apiRequest_non401_api_failure:
  "getValidAccessToken w = (Inr tok, w1) \<Longrightarrow> net w1 = (d, Responds r) # rest \<Longrightarrow>
   \<not> ok r \<Longrightarrow> status r \<noteq> 401 \<Longrightarrow> body r = Wellformed err \<Longrightarrow>
   apiRequest ep hs w =
     (Inl (FitbitApiError (status r) err),
      after_fetch (ResourceRequest (request_url ep) tok hs) d rest w1)"
  by (rule apiRequest_non401)

theorem apiRequest_non401_api_failure_witness:
  "getValidAccessToken (valid_world [answers 429 (Wellformed (JOther ''too_many_requests''))])
     = (Inr (Some ''a1''), valid_world [answers 429 (Wellformed (JOther ''too_many_requests''))])
   \<and> net (valid_world [answers 429 (Wellformed (JOther ''too_many_requests''))])
     = (0, Responds \<lparr>status = 429, body = Wellformed (JOther ''too_many_requests'')\<rparr>) # []
   \<and> \<not> ok \<lparr>status = 429, body = Wellformed (JOther ''too_many_requests'')\<rparr>
   \<and> status \<lparr>status = 429, body = Wellformed (JOther ''too_many_requests'')\<rparr> \<noteq> 401
   \<and> body \<lparr>status = 429, body = Wellformed (JOther ''too_many_requests'')\<rparr>
     = Wellformed (JOther ''too_many_requests'')
   \<and> apiRequest ''/1/user/-/profile.json'' []
        (valid_world [answers 429 (Wellformed (JOther ''too_many_requests''))])
     = (Inl (FitbitApiError 429 (JOther ''too_many_requests'')),
        after_fetch (ResourceRequest profile_url (Some ''a1'') []) 0 []
          (valid_world [answers 429 (Wellformed (JOther ''too_many_requests''))]))"
proof -
  let ?w = "valid_world [answers 429 (Wellformed (JOther ''too_many_requests''))]"
  let ?r = "\<lparr>status = 429, body = Wellformed (JOther ''too_many_requests'')\<rparr>"
  have g: "getValidAccessToken ?w = (Inr (Some ''a1''), ?w)"
    by (simp add: run_defs sample_defs)
  have n: "net ?w = (0, Responds ?r) # []" by (simp add: sample_defs)
  have k: "\<not> ok ?r" by (simp add: ok_def)
  have s: "status ?r \<noteq> 401" by simp
  have b: "body ?r = Wellformed (JOther ''too_many_requests'')" by simp
  have u: "request_url ''/1/user/-/profile.json'' = profile_url"
    by (simp add: request_url_def API_BASE_URL_def profile_url_def)
  from apiRequest_non401_api_failure [OF g n k s b, of "''/1/user/-/profile.json''" "[]"]
  show ?thesis using g n k u by simp
qed

end
